theory Spec2Isabelle
  imports Complex_Main "HOL-Library.Multiset" "HOL-Library.Option_ord"
begin

section \<open>Data model\<close>

text \<open>
  The screener of \<^verbatim>\<open>src/screener.py\<close> works on pandas DataFrames with one row per
  symbol. A frame is modelled row-wise, as the list of its rows in positional order. The
  seven columns delivered by the data provider are always present. The two columns that
  \<^verbatim>\<open>_calculate_momentum_score\<close> adds are optional: \<open>None\<close> stands for a column the
  frame does not have (yet).

  A float64 column value is read as the real number it denotes, so comparison is exact.
  Arithmetic on columns is float64 arithmetic: the exact result rounded to the nearest
  float64, ties to the even neighbour (\<open>float64\<close> below). A decimal literal \<open>d\<close> of the source
  denotes \<open>float64 d\<close>. NaN, infinities and results beyond the largest finite float64 are
  outside this model.
\<close>

record row =
  symbol :: string
  current_price :: real
  price_change_1d :: real
  price_change_7d :: real
  volume_24h :: int
  avg_volume_7d :: int
  volume_ratio :: real
  trend_consistency :: "real option"
  momentum_score :: "real option"

type_synonym dataframe = "row list"

text \<open>
  DataFrames are mutable objects handed around by reference. The store holds every frame
  object; an address is the position of the object in the store. Creating an object
  appends it, assigning a column overwrites the object in place.
\<close>

type_synonym addr = nat
type_synonym store = "dataframe list"

definition alloc :: "store \<Rightarrow> dataframe \<Rightarrow> store \<times> addr" where
  "alloc s df = (s @ [df], length s)"

datatype error = KeyError string

record screening_summary =
  total_found :: nat
  avg_volume_ratio :: real
  avg_momentum_score :: real
  top_categories :: "string list"

text \<open>
  The seven columns that the data provider delivers (\<^verbatim>\<open>data_provider.py\<close>, lines 74 to
  82 and 225 to 233), as a tuple: what a row is apart from the two derived columns.
\<close>

definition original_columns ::
  "row \<Rightarrow> string \<times> real \<times> real \<times> real \<times> int \<times> int \<times> real" where
  "original_columns r =
     (symbol r, current_price r, price_change_1d r, price_change_7d r,
      volume_24h r, avg_volume_7d r, volume_ratio r)"

section \<open>Filter stage\<close>

text \<open>
  \<^verbatim>\<open>df[mask]\<close> with a boolean mask computed from the same frame keeps the rows whose
  mask entry is true, in order, in a new frame.
\<close>

definition select_rows :: "(row \<Rightarrow> bool) \<Rightarrow> dataframe \<Rightarrow> dataframe" where
  "select_rows keep df = filter keep df"

text \<open>
  \<^verbatim>\<open>_apply_filters\<close>, lines 53 to 60: the local name \<^verbatim>\<open>df\<close> is rebound twice to a
  selection, and a copy of the last selection is returned. This is the content of the
  returned frame.
\<close>

definition apply_filters :: "dataframe \<Rightarrow> real \<Rightarrow> real \<Rightarrow> real \<Rightarrow> dataframe" where
  "apply_filters df min_volume_ratio min_price_change_1d max_price_change_1d =
     (let df1 = select_rows (\<lambda>r. volume_ratio r \<ge> min_volume_ratio) df;
          df2 = select_rows (\<lambda>r. price_change_1d r \<ge> min_price_change_1d \<and>
                                  price_change_1d r \<le> max_price_change_1d) df1
      in df2)"

text \<open>
  The same method as an operation on the store: the argument object is only read, and the
  copy is a new object.
\<close>

definition apply_filters_call ::
  "store \<Rightarrow> addr \<Rightarrow> real \<Rightarrow> real \<Rightarrow> real \<Rightarrow> store \<times> addr" where
  "apply_filters_call s a min_volume_ratio min_price_change_1d max_price_change_1d =
     alloc s (apply_filters (s ! a) min_volume_ratio min_price_change_1d max_price_change_1d)"

section \<open>Scoring stage\<close>

text \<open>Rounding to the nearest integer, ties to the even neighbour (\<^verbatim>\<open>rint\<close>).\<close>

definition rint :: "real \<Rightarrow> int" where
  "rint x =
     (let f = \<lfloor>x\<rfloor>; d = x - of_int f
      in if d < 1 / 2 then f
         else if d > 1 / 2 then f + 1
         else if even f then f else f + 1)"

text \<open>
  Binary floating point with 53 significant bits. The exponent of a value \<open>x\<close> is the \<open>k\<close>
  with \<open>2 ^ k \<le> \<bar>x\<bar> < 2 ^ (k + 1)\<close>, found by stepping from 0, and not below \<open>- 1022\<close>,
  where the subnormal numbers begin. The float64 values with exponent \<open>k\<close> are the
  multiples of \<open>2 ^ (k - 52)\<close>, and \<open>float64 x\<close> is the one nearest to \<open>x\<close>.
\<close>

definition pow2 :: "int \<Rightarrow> real" where
  "pow2 k = (if 0 \<le> k then 2 ^ nat k else 1 / 2 ^ nat (- k))"

fun find_exponent :: "nat \<Rightarrow> int \<Rightarrow> real \<Rightarrow> int" where
  "find_exponent 0 k x = k"
| "find_exponent (Suc n) k x =
     (if pow2 (k + 1) \<le> x then find_exponent n (k + 1) x
      else if x < pow2 k then find_exponent n (k - 1) x
      else k)"

definition float64_exponent :: "real \<Rightarrow> int" where
  "float64_exponent x = max (find_exponent 1100 0 \<bar>x\<bar>) (- 1022)"

definition float64 :: "real \<Rightarrow> real" where
  "float64 x =
     (let q = float64_exponent x - 52
      in of_int (rint (x / pow2 q)) * pow2 q)"

text \<open>The float64 operations \<^verbatim>\<open>*\<close>, \<^verbatim>\<open>/\<close> and \<^verbatim>\<open>+\<close>: the exact result, rounded once.\<close>

definition float_mul :: "real \<Rightarrow> real \<Rightarrow> real" where
  "float_mul x y = float64 (x * y)"

definition float_div :: "real \<Rightarrow> real \<Rightarrow> real" where
  "float_div x y = float64 (x / y)"


text \<open>
  \<^verbatim>\<open>Series.round(2)\<close>, and \<^verbatim>\<open>round(x, 2)\<close> on a numpy float64: numpy multiplies by 100,
  rounds to the nearest integer and divides by 100, each step in float64.
\<close>

definition round2 :: "real \<Rightarrow> real" where
  "round2 x = float_div (of_int (rint (float_mul x 100))) 100"

text \<open>Line 70, \<^verbatim>\<open>df['trend_consistency'] = 1.0\<close>: the column is set in every row.\<close>

definition assign_trend_consistency :: "real \<Rightarrow> dataframe \<Rightarrow> dataframe" where
  "assign_trend_consistency v df = map (\<lambda>r. r\<lparr>trend_consistency := Some v\<rparr>) df"

text \<open>Line 72: the boolean series, one entry per row; the product is a float64 product.\<close>

definition same_direction :: "dataframe \<Rightarrow> bool list" where
  "same_direction df = map (\<lambda>r. float_mul (price_change_1d r) (price_change_7d r) > 0) df"

text \<open>
  Line 73, \<^verbatim>\<open>df.loc[same_direction, 'trend_consistency'] = 1.5\<close>: the column is set in
  the rows whose entry of the series is true.
\<close>

definition loc_assign_trend_consistency :: "bool list \<Rightarrow> real \<Rightarrow> dataframe \<Rightarrow> dataframe" where
  "loc_assign_trend_consistency sel v df =
     map (\<lambda>(b, r). if b then r\<lparr>trend_consistency := Some v\<rparr> else r) (zip sel df)"

text \<open>
  Lines 75 to 79: the product of three columns, row by row, multiplied from left to right
  in float64 and rounded to two decimals. The column \<^verbatim>\<open>trend_consistency\<close> is read here.
\<close>

definition momentum_series :: "dataframe \<Rightarrow> real option list" where
  "momentum_series df =
     map (\<lambda>r. map_option
                (\<lambda>t. round2 (float_mul (float_mul (volume_ratio r) \<bar>price_change_1d r\<bar>) t))
                (trend_consistency r)) df"

definition assign_momentum_score :: "real option list \<Rightarrow> dataframe \<Rightarrow> dataframe" where
  "assign_momentum_score vs df = map (\<lambda>(v, r). r\<lparr>momentum_score := v\<rparr>) (zip vs df)"

text \<open>
  Line 81, \<^verbatim>\<open>df.sort_values('momentum_score', ascending=False)\<close>. For a descending
  sort pandas reverses the rows, sorts them in ascending order of the key and reverses the
  result; a missing value goes last. The sort below is stable, so rows with equal scores
  keep their input order; which order the library's default sort gives to equal scores is
  not fixed by this repository, and no property below depends on it.
\<close>

definition sort_values_momentum_score :: "dataframe \<Rightarrow> dataframe" where
  "sort_values_momentum_score df = rev (sort_key momentum_score (rev df))"

text \<open>Lines 70 to 79 together: the frame after the three column assignments.\<close>

definition score_columns :: "dataframe \<Rightarrow> dataframe" where
  "score_columns df =
     (let df1 = assign_trend_consistency 1 df;
          sel = same_direction df1;
          df2 = loc_assign_trend_consistency sel 1.5 df1;
          df3 = assign_momentum_score (momentum_series df2) df2
      in df3)"

text \<open>\<^verbatim>\<open>_calculate_momentum_score\<close>: the content of the returned frame.\<close>

definition calculate_momentum_score :: "dataframe \<Rightarrow> dataframe" where
  "calculate_momentum_score df =
     (if length df = 0 then df
      else sort_values_momentum_score (score_columns df))"

text \<open>
  The same method as an operation on the store. An empty frame is returned as it is, the
  same object. Otherwise the three column assignments overwrite the argument object in
  place, one after the other, and \<^verbatim>\<open>sort_values\<close> creates the object that is returned.
\<close>

definition calculate_momentum_score_call :: "store \<Rightarrow> addr \<Rightarrow> store \<times> addr" where
  "calculate_momentum_score_call s a =
     (if length (s ! a) = 0 then (s, a)
      else
        let s1 = s[a := assign_trend_consistency 1 (s ! a)];
            sel = same_direction (s1 ! a);
            s2 = s1[a := loc_assign_trend_consistency sel 1.5 (s1 ! a)];
            s3 = s2[a := assign_momentum_score (momentum_series (s2 ! a)) (s2 ! a)]
        in alloc s3 (sort_values_momentum_score (s3 ! a)))"

section \<open>Summary aggregator\<close>

text \<open>Decimal rendering of a length inside an f-string.\<close>

function str_nat :: "nat \<Rightarrow> string" where
  "str_nat n =
     (if n < 10 then [''0123456789'' ! n]
      else str_nat (n div 10) @ [''0123456789'' ! (n mod 10)])"
  by pat_completeness auto
termination
  by (relation "measure (\<lambda>n. n)") auto

declare str_nat.simps [simp del]

definition bullish_line :: "nat \<Rightarrow> string" where
  "bullish_line n = ''Bullish Momentum: '' @ str_nat n @ '' assets''"

definition bearish_line :: "nat \<Rightarrow> string" where
  "bearish_line n = ''Bearish Momentum: '' @ str_nat n @ '' assets''"


text \<open>
  \<^verbatim>\<open>get_screening_summary\<close>. The method reads the frame and assigns nothing to it.
  Reading \<^verbatim>\<open>df['momentum_score']\<close> on a frame without that column raises KeyError.
\<close>

definition get_screening_summary ::
  "(real list \<Rightarrow> real) \<Rightarrow> dataframe \<Rightarrow> error + screening_summary" where
  "get_screening_summary series_mean df =
     (if length df = 0 then
        Inr \<lparr>total_found = 0, avg_volume_ratio = 0, avg_momentum_score = 0,
             top_categories = []\<rparr>
      else
        let bullish = select_rows (\<lambda>r. price_change_1d r > 0) df;
            bearish = select_rows (\<lambda>r. price_change_1d r < 0) df;
            categories = [];
            categories = (if length bullish > 0
                          then categories @ [bullish_line (length bullish)] else categories);
            categories = (if length bearish > 0
                          then categories @ [bearish_line (length bearish)] else categories)
        in case those (map momentum_score df) of
             None \<Rightarrow> Inl (KeyError ''momentum_score'')
           | Some scores \<Rightarrow>
               Inr \<lparr>total_found = length df,
                    avg_volume_ratio = round2 (series_mean (map volume_ratio df)),
                    avg_momentum_score = round2 (series_mean scores),
                    top_categories = categories\<rparr>)"

definition get_screening_summary_call ::
  "(real list \<Rightarrow> real) \<Rightarrow> store \<Rightarrow> addr \<Rightarrow> store \<times> (error + screening_summary)" where
  "get_screening_summary_call series_mean s a = (s, get_screening_summary series_mean (s ! a))"

section \<open>Example rows\<close>

text \<open>The rows of the scenarios of the specification, with the remaining columns filled in.\<close>

definition snapshot :: "string \<Rightarrow> real \<Rightarrow> real \<Rightarrow> real \<Rightarrow> row" where
  "snapshot name vr d1 d7 =
     \<lparr>symbol = name, current_price = 100, price_change_1d = d1, price_change_7d = d7,
      volume_24h = 3000, avg_volume_7d = 1000, volume_ratio = vr,
      trend_consistency = None, momentum_score = None\<rparr>"

definition scenario_a :: row where
  "scenario_a = snapshot ''AAA'' 3 5 10"

definition scenario_b :: row where
  "scenario_b = snapshot ''BBB'' 3 5 (- 10)"

definition quiet_row :: row where
  "quiet_row = snapshot ''CCC'' 1 2 0"

definition busy_row :: row where
  "busy_row = snapshot ''DDD'' 2.5 (- 3) 4"

definition flat_row :: row where
  "flat_row = snapshot ''EEE'' 4 0 1"

text \<open>
  Two rows as the data providers deliver them, with values rounded to two decimals. The
  exact product of the first is just below 0.555, of the second just above 20.325.
\<close>

definition below_tie_row :: row where
  "below_tie_row = snapshot ''FFF'' 1 (float64 (- 0.37)) (float64 (- 11.66))"

definition above_tie_row :: row where
  "above_tie_row = snapshot ''GGG'' 2.5 (float64 (- 8.13)) (float64 1.9)"



section \<open>Filter stage: properties\<close>

lemmas example_rows =
  scenario_a_def scenario_b_def quiet_row_def busy_row_def flat_row_def snapshot_def

lemma apply_filters_filter:
  "apply_filters df mv lo hi =
     filter (\<lambda>r. volume_ratio r \<ge> mv \<and> lo \<le> price_change_1d r \<and> price_change_1d r \<le> hi) df"
  by (simp add: apply_filters_def select_rows_def conj_commute)

text \<open>
  Claim C1. The filter stage keeps a row if and only if its volume ratio is at least
  \<open>min_volume_ratio\<close> and its one-day price change lies between the two bounds: the result
  is exactly the rows of the input that meet all three comparisons, in input order and
  with their multiplicity; every row of the input that is not in the result fails one of
  the comparisons.
\<close>

theorem apply_filters_keeps_iff:
  "apply_filters df mv lo hi =
     filter (\<lambda>r. volume_ratio r \<ge> mv \<and> lo \<le> price_change_1d r \<and> price_change_1d r \<le> hi) df
   \<and> (\<forall>r. r \<in> set (apply_filters df mv lo hi) \<longleftrightarrow>
          r \<in> set df \<and> volume_ratio r \<ge> mv \<and> lo \<le> price_change_1d r \<and> price_change_1d r \<le> hi)
   \<and> (\<forall>r \<in> set df. r \<notin> set (apply_filters df mv lo hi) \<longrightarrow>
          \<not> volume_ratio r \<ge> mv \<or> \<not> lo \<le> price_change_1d r \<or> \<not> price_change_1d r \<le> hi)"
  by (auto simp: apply_filters_filter)

theorem apply_filters_keeps_iff_witness:
  "apply_filters [quiet_row, busy_row] 2 (- 50) 50 = [busy_row]
   \<and> quiet_row \<in> set [quiet_row, busy_row]
   \<and> quiet_row \<notin> set (apply_filters [quiet_row, busy_row] 2 (- 50) 50)
   \<and> \<not> volume_ratio quiet_row \<ge> 2
   \<and> busy_row \<in> set (apply_filters [quiet_row, busy_row] 2 (- 50) 50)
   \<and> volume_ratio busy_row \<ge> 2 \<and> - 50 \<le> price_change_1d busy_row
   \<and> price_change_1d busy_row \<le> 50"
  using apply_filters_keeps_iff [of "[quiet_row, busy_row]" 2 "- 50" 50]
  by (simp add: example_rows)

text \<open>
  Claim C6. When the lower bound of the one-day price change is above the upper bound,
  the filter stage returns the empty frame, whatever the input frame and the volume
  threshold are. The stage has no error result at all.
\<close>

theorem apply_filters_inverted_bounds:
  "min_price_change_1d > max_price_change_1d \<Longrightarrow>
     apply_filters df min_volume_ratio min_price_change_1d max_price_change_1d = []"
  by (auto simp: apply_filters_filter filter_empty_conv)

theorem apply_filters_inverted_bounds_witness:
  "(10::real) > - 10 \<and> apply_filters [quiet_row, busy_row] 0 10 (- 10) = []"
proof -
  have h: "(10::real) > - 10" by simp
  show ?thesis
    using h apply_filters_inverted_bounds [OF h, of "[quiet_row, busy_row]" 0] by simp
qed

text \<open>
  Claim C7. Filter monotonicity: with the price bounds fixed, raising the volume threshold
  from \<open>mv\<close> to \<open>mv'\<close> gives a result that is the result for \<open>mv\<close> filtered once more.
  So its rows are a subset (also counted with multiplicity) of the rows kept for \<open>mv\<close>,
  and it is no longer.
\<close>

theorem apply_filters_monotone:
  "mv \<le> mv' \<Longrightarrow>
     apply_filters df mv' lo hi = filter (\<lambda>r. volume_ratio r \<ge> mv') (apply_filters df mv lo hi)
   \<and> set (apply_filters df mv' lo hi) \<subseteq> set (apply_filters df mv lo hi)
   \<and> mset (apply_filters df mv' lo hi) \<subseteq># mset (apply_filters df mv lo hi)
   \<and> length (apply_filters df mv' lo hi) \<le> length (apply_filters df mv lo hi)"
proof -
  assume le: "mv \<le> mv'"
  let ?big = "apply_filters df mv lo hi"
  have eq: "apply_filters df mv' lo hi = filter (\<lambda>r. volume_ratio r \<ge> mv') ?big"
    using le by (auto simp: apply_filters_filter intro!: filter_cong)
  have "set (filter (\<lambda>r. volume_ratio r \<ge> mv') ?big) \<subseteq> set ?big"
    by auto
  moreover have "mset (filter (\<lambda>r. volume_ratio r \<ge> mv') ?big) \<subseteq># mset ?big"
    by simp
  moreover have "length (filter (\<lambda>r. volume_ratio r \<ge> mv') ?big) \<le> length ?big"
    by (rule length_filter_le)
  ultimately show ?thesis
    using eq by simp
qed

theorem apply_filters_monotone_witness:
  "(1::real) \<le> 2
   \<and> apply_filters [quiet_row, busy_row] 1 (- 50) 50 = [quiet_row, busy_row]
   \<and> apply_filters [quiet_row, busy_row] 2 (- 50) 50 = [busy_row]
   \<and> set (apply_filters [quiet_row, busy_row] 2 (- 50) 50)
       \<subseteq> set (apply_filters [quiet_row, busy_row] 1 (- 50) 50)
   \<and> length (apply_filters [quiet_row, busy_row] 2 (- 50) 50)
       \<le> length (apply_filters [quiet_row, busy_row] 1 (- 50) 50)"
proof -
  have h: "(1::real) \<le> 2" by simp
  have big: "apply_filters [quiet_row, busy_row] 1 (- 50) 50 = [quiet_row, busy_row]"
    by (simp add: apply_filters_filter example_rows)
  have small: "apply_filters [quiet_row, busy_row] 2 (- 50) 50 = [busy_row]"
    by (simp add: apply_filters_filter example_rows)
  show ?thesis
    using h big small apply_filters_monotone [OF h, of "[quiet_row, busy_row]" "- 50" 50]
    by simp
qed

section \<open>Float64 arithmetic: properties\<close>

lemma pow2_powr: "pow2 k = 2 powr (of_int k)"
proof (cases "0 \<le> k")
  case True
  have "(2::real) powr real (nat k) = 2 ^ nat k"
    by (rule powr_realpow) simp
  moreover have "real (nat k) = of_int k"
    using True by simp
  ultimately show ?thesis
    using True by (simp add: pow2_def)
next
  case False
  have "(2::real) powr real (nat (- k)) = 2 ^ nat (- k)"
    by (rule powr_realpow) simp
  moreover have "real (nat (- k)) = - of_int k"
    using False by simp
  ultimately have e: "(2::real) powr (- of_int k) = 2 ^ nat (- k)"
    by simp
  have "(2::real) powr (of_int k) = inverse (2 powr (- of_int k))"
    by (simp add: powr_minus)
  also have "\<dots> = inverse (2 ^ nat (- k))"
    by (simp only: e)
  finally show ?thesis
    using False by (simp add: pow2_def inverse_eq_divide)
qed

lemma pow2_pos: "0 < pow2 k"
  by (simp add: pow2_powr)

lemma pow2_mono: "a \<le> b \<Longrightarrow> pow2 a \<le> pow2 b"
  by (simp add: pow2_powr)

lemma find_exponent_eq:
  "pow2 k \<le> x \<Longrightarrow> x < pow2 (k + 1) \<Longrightarrow> nat \<bar>k - j\<bar> \<le> n \<Longrightarrow> find_exponent n j x = k"
proof (induction n arbitrary: j)
  case 0
  then show ?case by simp
next
  case (Suc n)
  consider "j < k" | "j = k" | "k < j" by linarith
  then show ?case
  proof cases
    case 1
    then have "pow2 (j + 1) \<le> pow2 k"
      by (intro pow2_mono) simp
    with Suc.prems(1) have up: "pow2 (j + 1) \<le> x"
      by simp
    have "nat \<bar>k - (j + 1)\<bar> \<le> n"
      using 1 Suc.prems(3) by simp
    with Suc.IH [OF Suc.prems(1,2)] up show ?thesis
      by simp
  next
    case 2
    with Suc.prems show ?thesis
      by simp
  next
    case 3
    then have "pow2 (k + 1) \<le> pow2 j"
      by (intro pow2_mono) simp
    with Suc.prems(2) have below: "x < pow2 j"
      by simp
    have "pow2 j \<le> pow2 (j + 1)"
      by (intro pow2_mono) simp
    with below have notup: "\<not> pow2 (j + 1) \<le> x"
      by simp
    have "nat \<bar>k - (j - 1)\<bar> \<le> n"
      using 3 Suc.prems(3) by simp
    with Suc.IH [OF Suc.prems(1,2)] below notup show ?thesis
      by simp
  qed
qed

lemma float64_eval:
  assumes "pow2 k \<le> \<bar>x\<bar>" and "\<bar>x\<bar> < pow2 (k + 1)" and "- 1022 \<le> k" and "k \<le> 1023"
  shows "float64 x = of_int (rint (x / pow2 (k - 52))) * pow2 (k - 52)"
proof -
  have "nat \<bar>k - 0\<bar> \<le> 1100"
    using assms(3,4) by simp
  then have "find_exponent 1100 0 \<bar>x\<bar> = k"
    by (rule find_exponent_eq [OF assms(1,2)])
  then have "float64_exponent x = k"
    using assms(3) by (simp add: float64_exponent_def)
  then show ?thesis
    by (simp add: float64_def Let_def)
qed

lemma rint_0: "rint 0 = 0"
  by (simp add: rint_def)

lemma float64_0: "float64 0 = 0"
  by (simp add: float64_def rint_0)

lemma rint_nonpos: "y \<le> 0 \<Longrightarrow> rint y \<le> 0"
proof -
  assume y: "y \<le> 0"
  then have f: "\<lfloor>y\<rfloor> \<le> 0"
    by (simp add: floor_le_zero le_less_trans)
  show ?thesis
  proof (cases "\<lfloor>y\<rfloor> = 0")
    case True
    then have "0 \<le> y"
      by (metis of_int_0 of_int_floor_le)
    with y have "y = 0" by simp
    then show ?thesis by (simp add: rint_0)
  next
    case False
    with f have "\<lfloor>y\<rfloor> + 1 \<le> 0" by linarith
    moreover have "rint y = \<lfloor>y\<rfloor> \<or> rint y = \<lfloor>y\<rfloor> + 1"
      by (simp add: rint_def Let_def)
    ultimately show ?thesis
      using f by linarith
  qed
qed

lemma float64_pos_imp: "0 < float64 x \<Longrightarrow> 0 < x"
proof (rule ccontr)
  assume pos: "0 < float64 x" and "\<not> 0 < x"
  then have "x \<le> 0" by simp
  let ?q = "float64_exponent x - 52"
  have "x / pow2 ?q \<le> 0"
    using \<open>x \<le> 0\<close> pow2_pos [of ?q] by (simp add: divide_nonpos_pos)
  then have "rint (x / pow2 ?q) \<le> 0"
    by (rule rint_nonpos)
  then have "of_int (rint (x / pow2 ?q)) * pow2 ?q \<le> 0"
    using pow2_pos [of ?q] by (simp add: mult_le_0_iff)
  with pos show False
    by (simp add: float64_def Let_def)
qed

lemma float_mul_pos_imp: "0 < float_mul x y \<Longrightarrow> 0 < x * y"
  unfolding float_mul_def by (rule float64_pos_imp)

lemma float_mul_0 [simp]: "float_mul 0 y = 0" "float_mul x 0 = 0"
  by (simp_all add: float_mul_def float64_0)

text \<open>The float64 values of the decimal literals that the examples use.\<close>

lemma literals:
  "float64 (- 0.37) = - (3332663724254167 / 2 ^ 53)"
  "float64 (- 11.66) = - (3281998228446249 / 2 ^ 48)"
  "float64 (- 8.13) = - (4576783121315267 / 2 ^ 49)"
  "float64 1.9 = 4278419646001971 / 2 ^ 51"
  "float64 0.55 = 2476979795053773 / 2 ^ 52"
  "float64 20.33 = 1430596569131909 / 2 ^ 46"
  "float64 1.39 = 6260003482044989 / 2 ^ 52"
  "float64 40.91 = 1439392662154117 / 2 ^ 45"
  "float64 28.08 = 1975954336508805 / 2 ^ 46"
  "float64 1.19 = 2679641778285445 / 2 ^ 51"
  "float64 34.49 = 4854035973375263 / 2 ^ 47"
  subgoal by (subst float64_eval [where k = "- 2"]) (simp_all add: pow2_def rint_def)
  subgoal by (subst float64_eval [where k = 3]) (simp_all add: pow2_def rint_def)
  subgoal by (subst float64_eval [where k = 3]) (simp_all add: pow2_def rint_def)
  subgoal by (subst float64_eval [where k = 0]) (simp_all add: pow2_def rint_def)
  subgoal by (subst float64_eval [where k = "- 1"]) (simp_all add: pow2_def rint_def)
  subgoal by (subst float64_eval [where k = 4]) (simp_all add: pow2_def rint_def)
  subgoal by (subst float64_eval [where k = 0]) (simp_all add: pow2_def rint_def)
  subgoal by (subst float64_eval [where k = 5]) (simp_all add: pow2_def rint_def)
  subgoal by (subst float64_eval [where k = 4]) (simp_all add: pow2_def rint_def)
  subgoal by (subst float64_eval [where k = 0]) (simp_all add: pow2_def rint_def)
  subgoal by (subst float64_eval [where k = 5]) (simp_all add: pow2_def rint_def)
  done

section \<open>Scoring stage: properties\<close>

lemma score_columns_map:
  "score_columns df =
     map (\<lambda>r. r\<lparr>trend_consistency :=
                   Some (if float_mul (price_change_1d r) (price_change_7d r) > 0 then 1.5 else 1),
                 momentum_score :=
                   Some (round2 (float_mul (float_mul (volume_ratio r) \<bar>price_change_1d r\<bar>)
                           (if float_mul (price_change_1d r) (price_change_7d r) > 0
                            then 1.5 else 1)))\<rparr>) df"
  unfolding score_columns_def assign_trend_consistency_def same_direction_def
    loc_assign_trend_consistency_def momentum_series_def assign_momentum_score_def Let_def
  by (induction df) auto

lemma score_columns_Cons:
  "score_columns (r # r' # df) = score_columns [r] @ score_columns (r' # df)"
  by (simp add: score_columns_map)

text \<open>
  One row, step by step: the float64 product of the two price changes, then the three
  float64 products and the division of the rounding.
\<close>

lemma score_row_eval:
  assumes "price_change_1d r = d" and "price_change_7d r = w" and "volume_ratio r = v"
    and "float64 (d * w) = sd"
    and "t = (if 0 < sd then 1.5 else 1)"
    and "float64 (v * \<bar>d\<bar>) = p"
    and "float64 (p * t) = m"
    and "float64 (m * 100) = c"
    and "float64 (of_int (rint c) / 100) = s"
  shows "score_columns [r] = [r\<lparr>trend_consistency := Some t, momentum_score := Some s\<rparr>]"
proof -
  have sd: "float_mul (price_change_1d r) (price_change_7d r) = sd"
    by (simp only: float_mul_def assms(1,2,4))
  have "round2 (float_mul (float_mul (volume_ratio r) \<bar>price_change_1d r\<bar>) t) = s"
    by (simp only: round2_def float_mul_def float_div_def assms(1,3,6,7,8,9))
  then show ?thesis
    by (simp add: score_columns_map sd assms(5))
qed

lemma scenario_a_columns:
  "score_columns [scenario_a] =
     [scenario_a\<lparr>trend_consistency := Some 1.5, momentum_score := Some 22.5\<rparr>]"
proof (rule score_row_eval [where d = 5 and w = 10 and v = 3 and sd = 50 and p = 15
      and m = "45 / 2" and c = 2250])
  show "float64 (5 * 10) = 50"
    by (subst float64_eval [where k = 5]) (simp_all add: pow2_def rint_def)
  show "float64 (3 * \<bar>5\<bar>) = 15"
    by (subst float64_eval [where k = 3]) (simp_all add: pow2_def rint_def)
  show "float64 (15 * 1.5) = 45 / 2"
    by (subst float64_eval [where k = 4]) (simp_all add: pow2_def rint_def)
  show "float64 (45 / 2 * 100) = 2250"
    by (subst float64_eval [where k = 11]) (simp_all add: pow2_def rint_def)
  show "float64 (real_of_int (rint 2250) / 100) = 22.5"
    by (subst float64_eval [where k = 4]) (simp_all add: pow2_def rint_def)
qed (simp_all add: example_rows)

lemma scenario_b_columns:
  "score_columns [scenario_b] =
     [scenario_b\<lparr>trend_consistency := Some 1, momentum_score := Some 15\<rparr>]"
proof (rule score_row_eval [where d = 5 and w = "- 10" and v = 3 and sd = "- 50" and p = 15
      and m = 15 and c = 1500])
  show "float64 (5 * - 10) = - 50"
    by (subst float64_eval [where k = 5]) (simp_all add: pow2_def rint_def)
  show "float64 (3 * \<bar>5\<bar>) = 15"
    by (subst float64_eval [where k = 3]) (simp_all add: pow2_def rint_def)
  show "float64 (15 * 1) = 15"
    by (subst float64_eval [where k = 3]) (simp_all add: pow2_def rint_def)
  show "float64 (15 * 100) = 1500"
    by (subst float64_eval [where k = 10]) (simp_all add: pow2_def rint_def)
  show "float64 (real_of_int (rint 1500) / 100) = 15"
    by (subst float64_eval [where k = 3]) (simp_all add: pow2_def rint_def)
qed (simp_all add: example_rows)

lemma quiet_row_columns:
  "score_columns [quiet_row] =
     [quiet_row\<lparr>trend_consistency := Some 1, momentum_score := Some 2\<rparr>]"
proof (rule score_row_eval [where d = 2 and w = 0 and v = 1 and sd = 0 and p = 2
      and m = 2 and c = 200])
  show "float64 (2 * 0) = 0"
    by (simp add: float64_0)
  show "float64 (1 * \<bar>2\<bar>) = 2"
    by (subst float64_eval [where k = 1]) (simp_all add: pow2_def rint_def)
  show "float64 (2 * 1) = 2"
    by (subst float64_eval [where k = 1]) (simp_all add: pow2_def rint_def)
  show "float64 (2 * 100) = 200"
    by (subst float64_eval [where k = 7]) (simp_all add: pow2_def rint_def)
  show "float64 (real_of_int (rint 200) / 100) = 2"
    by (subst float64_eval [where k = 1]) (simp_all add: pow2_def rint_def)
qed (simp_all add: example_rows)

lemma busy_row_columns:
  "score_columns [busy_row] =
     [busy_row\<lparr>trend_consistency := Some 1, momentum_score := Some 7.5\<rparr>]"
proof (rule score_row_eval [where d = "- 3" and w = 4 and v = "2.5" and sd = "- 12"
      and p = "15 / 2" and m = "15 / 2" and c = 750])
  show "float64 (- 3 * 4) = - 12"
    by (subst float64_eval [where k = 3]) (simp_all add: pow2_def rint_def)
  show "float64 (2.5 * \<bar>- 3\<bar>) = 15 / 2"
    by (subst float64_eval [where k = 2]) (simp_all add: pow2_def rint_def)
  show "float64 (15 / 2 * 1) = 15 / 2"
    by (subst float64_eval [where k = 2]) (simp_all add: pow2_def rint_def)
  show "float64 (15 / 2 * 100) = 750"
    by (subst float64_eval [where k = 9]) (simp_all add: pow2_def rint_def)
  show "float64 (real_of_int (rint 750) / 100) = 7.5"
    by (subst float64_eval [where k = 2]) (simp_all add: pow2_def rint_def)
qed (simp_all add: example_rows)

lemma flat_row_columns:
  "score_columns [flat_row] =
     [flat_row\<lparr>trend_consistency := Some 1, momentum_score := Some 0\<rparr>]"
proof (rule score_row_eval [where d = 0 and w = 1 and v = 4 and sd = 0 and p = 0
      and m = 0 and c = 0])
qed (simp_all add: example_rows float64_0 rint_0)

lemma below_tie_row_columns:
  "score_columns [below_tie_row] =
     [below_tie_row\<lparr>trend_consistency := Some 1.5, momentum_score := Some (float64 0.55)\<rparr>]"
proof (rule score_row_eval [where d = "- (3332663724254167 / 2 ^ 53)"
      and w = "- (3281998228446249 / 2 ^ 48)" and v = 1
      and sd = "151792418065639 / 2 ^ 45"
      and p = "3332663724254167 / 2 ^ 53"
      and m = "2499497793190625 / 2 ^ 52"
      and c = "7810930603720703 / 2 ^ 47"])
  show "price_change_1d below_tie_row = - (3332663724254167 / 2 ^ 53)"
    by (simp only: below_tie_row_def snapshot_def row.simps literals)
  show "price_change_7d below_tie_row = - (3281998228446249 / 2 ^ 48)"
    by (simp only: below_tie_row_def snapshot_def row.simps literals)
  show "volume_ratio below_tie_row = 1"
    by (simp only: below_tie_row_def snapshot_def row.simps)
  show "float64 (- (3332663724254167 / 2 ^ 53) * - (3281998228446249 / 2 ^ 48))
          = 151792418065639 / 2 ^ 45"
    by (subst float64_eval [where k = 2]) (simp_all add: pow2_def rint_def)
  show "1.5 = (if 0 < (151792418065639 / 2 ^ 45 :: real) then 1.5 else 1)"
    by simp
  show "float64 (1 * \<bar>- (3332663724254167 / 2 ^ 53)\<bar>) = 3332663724254167 / 2 ^ 53"
    by (subst float64_eval [where k = "- 2"]) (simp_all add: pow2_def rint_def)
  show "float64 (3332663724254167 / 2 ^ 53 * 1.5) = 2499497793190625 / 2 ^ 52"
    by (subst float64_eval [where k = "- 1"]) (simp_all add: pow2_def rint_def)
  show "float64 (2499497793190625 / 2 ^ 52 * 100) = 7810930603720703 / 2 ^ 47"
    by (subst float64_eval [where k = 5]) (simp_all add: pow2_def rint_def)
  have "rint (7810930603720703 / 2 ^ 47) = 55"
    by (simp add: rint_def)
  then show "float64 (real_of_int (rint (7810930603720703 / 2 ^ 47)) / 100) = float64 0.55"
    by simp
qed

lemma above_tie_row_columns:
  "score_columns [above_tie_row] =
     [above_tie_row\<lparr>trend_consistency := Some 1, momentum_score := Some (float64 20.33)\<rparr>]"
proof (rule score_row_eval [where d = "- (4576783121315267 / 2 ^ 49)"
      and w = "4278419646001971 / 2 ^ 51" and v = "2.5"
      and sd = "- (8695887930499007 / 2 ^ 49)"
      and p = "1430244725411021 / 2 ^ 46"
      and m = "1430244725411021 / 2 ^ 46"
      and c = "8939029533818881 / 2 ^ 42"])
  show "price_change_1d above_tie_row = - (4576783121315267 / 2 ^ 49)"
    by (simp only: above_tie_row_def snapshot_def row.simps literals)
  show "price_change_7d above_tie_row = 4278419646001971 / 2 ^ 51"
    by (simp only: above_tie_row_def snapshot_def row.simps literals)
  show "volume_ratio above_tie_row = 2.5"
    by (simp only: above_tie_row_def snapshot_def row.simps)
  show "float64 (- (4576783121315267 / 2 ^ 49) * (4278419646001971 / 2 ^ 51))
          = - (8695887930499007 / 2 ^ 49)"
    by (subst float64_eval [where k = 3]) (simp_all add: pow2_def rint_def)
  show "1 = (if 0 < (- (8695887930499007 / 2 ^ 49) :: real) then 1.5 else 1)"
    by simp
  show "float64 (2.5 * \<bar>- (4576783121315267 / 2 ^ 49)\<bar>) = 1430244725411021 / 2 ^ 46"
    by (subst float64_eval [where k = 4]) (simp_all add: pow2_def rint_def)
  show "float64 (1430244725411021 / 2 ^ 46 * 1) = 1430244725411021 / 2 ^ 46"
    by (subst float64_eval [where k = 4]) (simp_all add: pow2_def rint_def)
  show "float64 (1430244725411021 / 2 ^ 46 * 100) = 8939029533818881 / 2 ^ 42"
    by (subst float64_eval [where k = 10]) (simp_all add: pow2_def rint_def)
  have "rint (8939029533818881 / 2 ^ 42) = 2033"
    by (simp add: rint_def)
  then show "float64 (real_of_int (rint (8939029533818881 / 2 ^ 42)) / 100) = float64 20.33"
    by simp
qed

lemma mset_sort_values: "mset (sort_values_momentum_score df) = mset df"
  by (simp add: sort_values_momentum_score_def)

lemma set_sort_values: "set (sort_values_momentum_score df) = set df"
  by (simp add: sort_values_momentum_score_def)

lemma length_sort_values: "length (sort_values_momentum_score df) = length df"
  by (simp add: sort_values_momentum_score_def)

lemma sorted_sort_values:
  "sorted_wrt (\<lambda>r r'. momentum_score r \<ge> momentum_score r') (sort_values_momentum_score df)"
proof -
  have "sorted (map momentum_score (sort_key momentum_score (rev df)))"
    by (rule sorted_sort_key)
  then have "sorted_wrt (\<lambda>r r'. momentum_score r \<le> momentum_score r')
               (sort_key momentum_score (rev df))"
    by (simp add: sorted_wrt_map)
  then show ?thesis
    by (simp add: sort_values_momentum_score_def sorted_wrt_rev)
qed

lemma calculate_momentum_score_mset:
  "mset (calculate_momentum_score df) = mset (score_columns df)"
  by (simp add: calculate_momentum_score_def mset_sort_values score_columns_map)

lemma calculate_momentum_score_set:
  "set (calculate_momentum_score df) = set (score_columns df)"
  using calculate_momentum_score_mset [of df] by (metis set_mset_mset)

lemma scenario_a_scored:
  "calculate_momentum_score [scenario_a] =
     [scenario_a\<lparr>trend_consistency := Some 1.5, momentum_score := Some 22.5\<rparr>]"
  by (simp add: calculate_momentum_score_def sort_values_momentum_score_def scenario_a_columns)

lemma below_tie_row_scored:
  "calculate_momentum_score [below_tie_row] =
     [below_tie_row\<lparr>trend_consistency := Some 1.5, momentum_score := Some (float64 0.55)\<rparr>]"
  by (simp add: calculate_momentum_score_def sort_values_momentum_score_def
      below_tie_row_columns)

lemma above_tie_row_scored:
  "calculate_momentum_score [above_tie_row] =
     [above_tie_row\<lparr>trend_consistency := Some 1, momentum_score := Some (float64 20.33)\<rparr>]"
  by (simp add: calculate_momentum_score_def sort_values_momentum_score_def
      above_tie_row_columns)

text \<open>
  Claim C2. Every row that the scoring stage returns has \<open>trend_consistency\<close> 1.5 when the
  float64 product of its one-day and seven-day price changes is strictly positive and 1.0
  otherwise; so 1.0 when either change is zero, and 1.0 whenever the two changes do not
  have the same sign. Its \<open>momentum_score\<close> is the float64 product of the volume ratio,
  the absolute one-day change and the trend consistency, rounded to two decimals the way
  numpy rounds. The row with volume ratio 3, one-day change 5 and seven-day change 10
  gets trend consistency 1.5 and momentum score 22.5. Two rows with two-decimal values
  show the rounding: volume ratio 1.0 with changes -0.37 and -11.66 scores 0.55, and
  volume ratio 2.5 with changes -8.13 and 1.9 scores 20.33.
\<close>

theorem momentum_score_formula:
  "(\<forall>r \<in> set (calculate_momentum_score df).
      trend_consistency r =
        Some (if float_mul (price_change_1d r) (price_change_7d r) > 0 then 1.5 else 1)
    \<and> (price_change_1d r = 0 \<or> price_change_7d r = 0 \<longrightarrow> trend_consistency r = Some 1)
    \<and> (price_change_1d r * price_change_7d r \<le> 0 \<longrightarrow> trend_consistency r = Some 1)
    \<and> (\<exists>t. trend_consistency r = Some t \<and>
            momentum_score r =
              Some (round2 (float_mul (float_mul (volume_ratio r) \<bar>price_change_1d r\<bar>) t))))
   \<and> volume_ratio scenario_a = 3 \<and> price_change_1d scenario_a = 5
   \<and> price_change_7d scenario_a = 10
   \<and> map trend_consistency (calculate_momentum_score [scenario_a]) = [Some 1.5]
   \<and> map momentum_score (calculate_momentum_score [scenario_a]) = [Some 22.5]
   \<and> volume_ratio below_tie_row = 1 \<and> price_change_1d below_tie_row = float64 (- 0.37)
   \<and> price_change_7d below_tie_row = float64 (- 11.66)
   \<and> map momentum_score (calculate_momentum_score [below_tie_row]) = [Some (float64 0.55)]
   \<and> volume_ratio above_tie_row = 2.5 \<and> price_change_1d above_tie_row = float64 (- 8.13)
   \<and> price_change_7d above_tie_row = float64 1.9
   \<and> map momentum_score (calculate_momentum_score [above_tie_row]) = [Some (float64 20.33)]"
proof -
  have sign: "\<And>r :: row. price_change_1d r * price_change_7d r \<le> 0 \<Longrightarrow>
      \<not> 0 < float_mul (price_change_1d r) (price_change_7d r)"
    using float_mul_pos_imp by fastforce
  have "\<forall>r \<in> set (score_columns df).
      trend_consistency r =
        Some (if float_mul (price_change_1d r) (price_change_7d r) > 0 then 1.5 else 1)
    \<and> (price_change_1d r = 0 \<or> price_change_7d r = 0 \<longrightarrow> trend_consistency r = Some 1)
    \<and> (price_change_1d r * price_change_7d r \<le> 0 \<longrightarrow> trend_consistency r = Some 1)
    \<and> (\<exists>t. trend_consistency r = Some t \<and>
            momentum_score r =
              Some (round2 (float_mul (float_mul (volume_ratio r) \<bar>price_change_1d r\<bar>) t)))"
    using sign by (auto simp: score_columns_map)
  then have rows: "\<forall>r \<in> set (calculate_momentum_score df).
      trend_consistency r =
        Some (if float_mul (price_change_1d r) (price_change_7d r) > 0 then 1.5 else 1)
    \<and> (price_change_1d r = 0 \<or> price_change_7d r = 0 \<longrightarrow> trend_consistency r = Some 1)
    \<and> (price_change_1d r * price_change_7d r \<le> 0 \<longrightarrow> trend_consistency r = Some 1)
    \<and> (\<exists>t. trend_consistency r = Some t \<and>
            momentum_score r =
              Some (round2 (float_mul (float_mul (volume_ratio r) \<bar>price_change_1d r\<bar>) t)))"
    by (simp only: calculate_momentum_score_set)
  have fields: "volume_ratio scenario_a = 3 \<and> price_change_1d scenario_a = 5
      \<and> price_change_7d scenario_a = 10"
    by (simp add: example_rows)
  have scored: "map trend_consistency (calculate_momentum_score [scenario_a]) = [Some 1.5]
      \<and> map momentum_score (calculate_momentum_score [scenario_a]) = [Some 22.5]"
    by (simp add: scenario_a_scored)
  have below: "volume_ratio below_tie_row = 1 \<and> price_change_1d below_tie_row = float64 (- 0.37)
      \<and> price_change_7d below_tie_row = float64 (- 11.66)"
    by (simp only: below_tie_row_def snapshot_def row.simps simp_thms)
  have below_scored:
    "map momentum_score (calculate_momentum_score [below_tie_row]) = [Some (float64 0.55)]"
    by (simp add: below_tie_row_scored)
  have above: "volume_ratio above_tie_row = 2.5 \<and> price_change_1d above_tie_row = float64 (- 8.13)
      \<and> price_change_7d above_tie_row = float64 1.9"
    by (simp only: above_tie_row_def snapshot_def row.simps simp_thms)
  have above_scored:
    "map momentum_score (calculate_momentum_score [above_tie_row]) = [Some (float64 20.33)]"
    by (simp add: above_tie_row_scored)
  from rows fields scored below below_scored above above_scored show ?thesis
    by blast
qed

lemma scenario_b_quiet_scored:
  "calculate_momentum_score [scenario_b, quiet_row] =
      [scenario_b\<lparr>trend_consistency := Some 1, momentum_score := Some 15\<rparr>,
       quiet_row\<lparr>trend_consistency := Some 1, momentum_score := Some 2\<rparr>]"
  by (simp add: calculate_momentum_score_def sort_values_momentum_score_def
      score_columns_Cons scenario_b_columns quiet_row_columns)

theorem momentum_score_formula_witness:
  "quiet_row\<lparr>trend_consistency := Some 1, momentum_score := Some 2\<rparr>
      \<in> set (calculate_momentum_score [scenario_b, quiet_row])
   \<and> price_change_7d quiet_row = 0
   \<and> price_change_1d quiet_row * price_change_7d quiet_row \<le> 0
   \<and> trend_consistency (quiet_row\<lparr>trend_consistency := Some 1, momentum_score := Some 2\<rparr>) = Some 1
   \<and> momentum_score (quiet_row\<lparr>trend_consistency := Some 1, momentum_score := Some 2\<rparr>)
       = Some (round2 (float_mul (float_mul 1 \<bar>2\<bar>) 1))
   \<and> map momentum_score (calculate_momentum_score [below_tie_row]) = [Some (float64 0.55)]
   \<and> float64 0.55 = 2476979795053773 / 2 ^ 52
   \<and> map momentum_score (calculate_momentum_score [above_tie_row]) = [Some (float64 20.33)]
   \<and> float64 20.33 = 1430596569131909 / 2 ^ 46"
proof -
  let ?q = "quiet_row\<lparr>trend_consistency := Some 1, momentum_score := Some 2\<rparr>"
  note formula = momentum_score_formula [of "[scenario_b, quiet_row]"]
  have mem: "?q \<in> set (calculate_momentum_score [scenario_b, quiet_row])"
    by (simp add: scenario_b_quiet_scored)
  have fields: "price_change_1d quiet_row = 2" "price_change_7d quiet_row = 0"
    "volume_ratio quiet_row = 1"
    by (simp_all add: example_rows)
  have zero: "price_change_1d quiet_row * price_change_7d quiet_row \<le> 0"
    by (simp add: fields)
  have "\<forall>r \<in> set (calculate_momentum_score [scenario_b, quiet_row]).
      (price_change_1d r * price_change_7d r \<le> 0 \<longrightarrow> trend_consistency r = Some 1)
    \<and> (\<exists>t. trend_consistency r = Some t \<and>
            momentum_score r =
              Some (round2 (float_mul (float_mul (volume_ratio r) \<bar>price_change_1d r\<bar>) t)))"
    using formula by blast
  with mem have at: "(price_change_1d ?q * price_change_7d ?q \<le> 0 \<longrightarrow> trend_consistency ?q = Some 1)
    \<and> (\<exists>t. trend_consistency ?q = Some t \<and>
            momentum_score ?q =
              Some (round2 (float_mul (float_mul (volume_ratio ?q) \<bar>price_change_1d ?q\<bar>) t)))"
    by blast
  have trend: "trend_consistency ?q = Some 1"
    by simp
  from at obtain t where "trend_consistency ?q = Some t"
    and score: "momentum_score ?q =
      Some (round2 (float_mul (float_mul (volume_ratio ?q) \<bar>price_change_1d ?q\<bar>) t))"
    by blast
  with trend have "t = 1"
    by simp
  with score have score': "momentum_score ?q = Some (round2 (float_mul (float_mul 1 \<bar>2\<bar>) 1))"
    by (simp add: fields)
  have below: "map momentum_score (calculate_momentum_score [below_tie_row]) = [Some (float64 0.55)]"
    using formula by blast
  have above: "map momentum_score (calculate_momentum_score [above_tie_row]) = [Some (float64 20.33)]"
    using formula by blast
  from mem fields(2) zero trend score' below literals(5) above literals(6) show ?thesis
    by blast
qed

lemma score_columns_scored:
  "r \<in> set (score_columns df) \<Longrightarrow> \<exists>t m. trend_consistency r = Some t \<and> momentum_score r = Some m"
  by (auto simp: score_columns_map)

lemma score_columns_original:
  "map original_columns (score_columns df) = map original_columns df"
  by (simp add: score_columns_map original_columns_def)

lemma score_columns_length: "length (score_columns df) = length df"
  by (simp add: score_columns_map)

lemma calculate_momentum_score_Nil: "calculate_momentum_score [] = []"
  by (simp add: calculate_momentum_score_def)

lemma example_scored:
  "calculate_momentum_score [quiet_row, busy_row, scenario_a] =
     [scenario_a\<lparr>trend_consistency := Some 1.5, momentum_score := Some 22.5\<rparr>,
      busy_row\<lparr>trend_consistency := Some 1, momentum_score := Some 7.5\<rparr>,
      quiet_row\<lparr>trend_consistency := Some 1, momentum_score := Some 2\<rparr>]"
  by (simp add: calculate_momentum_score_def sort_values_momentum_score_def
      score_columns_Cons quiet_row_columns busy_row_columns scenario_a_columns)

lemma sorted_wrt_ge_nth:
  fixes xs :: "real list"
  assumes "sorted_wrt (\<lambda>x y. x \<ge> y) xs" and "i \<le> j" and "j < length xs"
  shows "xs ! j \<le> xs ! i"
proof (cases "i = j")
  case True
  then show ?thesis by simp
next
  case False
  with assms(2) have "i < j" by simp
  from sorted_wrt_nth_less [OF assms(1) this assms(3)] show ?thesis .
qed

text \<open>
  Claim C3. The scoring stage returns its rows sorted by momentum score, highest first:
  every row of the result has a score, and read from the first row to the last the scores
  never increase.
\<close>

theorem scores_non_increasing:
  "\<exists>scores. map momentum_score (calculate_momentum_score df) = map Some scores
            \<and> sorted_wrt (\<lambda>x y. x \<ge> y) scores
            \<and> (\<forall>i j. i \<le> j \<and> j < length scores \<longrightarrow> scores ! j \<le> scores ! i)"
proof (cases "df = []")
  case True
  then have "map momentum_score (calculate_momentum_score df) = map Some []"
    by (simp add: calculate_momentum_score_Nil)
  then show ?thesis
    by (intro exI [of _ "[]"]) simp
next
  case False
  let ?out = "calculate_momentum_score df"
  let ?scores = "map (\<lambda>r. the (momentum_score r)) ?out"
  have out: "?out = sort_values_momentum_score (score_columns df)"
    using False by (simp add: calculate_momentum_score_def)
  have some: "\<forall>r \<in> set ?out. momentum_score r = Some (the (momentum_score r))"
    using score_columns_scored [of _ df] by (auto simp: calculate_momentum_score_set)
  then have col: "map momentum_score ?out = map Some ?scores"
    by simp
  have "sorted_wrt (\<lambda>r r'. momentum_score r \<ge> momentum_score r') ?out"
    unfolding out by (rule sorted_sort_values)
  then have "sorted_wrt (\<lambda>x y. x \<ge> y) (map momentum_score ?out)"
    by (simp add: sorted_wrt_map)
  then have "sorted_wrt (\<lambda>x y. x \<ge> y) (map Some ?scores)"
    by (simp only: col)
  then have desc: "sorted_wrt (\<lambda>x y. x \<ge> y) ?scores"
    by (simp add: sorted_wrt_map)
  then have "\<forall>i j. i \<le> j \<and> j < length ?scores \<longrightarrow> ?scores ! j \<le> ?scores ! i"
    using sorted_wrt_ge_nth by blast
  with col desc show ?thesis
    by blast
qed

theorem scores_non_increasing_witness:
  "map momentum_score (calculate_momentum_score [quiet_row, busy_row, scenario_a])
     = map Some [22.5, 7.5, 2]
   \<and> (0::nat) \<le> 2 \<and> (2::nat) < length [22.5, 7.5, 2 :: real]
   \<and> [22.5, 7.5, 2 :: real] ! 2 \<le> [22.5, 7.5, 2] ! 0"
proof -
  obtain scores where
    col: "map momentum_score (calculate_momentum_score [quiet_row, busy_row, scenario_a])
            = map Some scores"
    and idx: "\<forall>i j. i \<le> j \<and> j < length scores \<longrightarrow> scores ! j \<le> scores ! i"
    using scores_non_increasing [of "[quiet_row, busy_row, scenario_a]"] by blast
  have "map Some scores = map Some [22.5, 7.5, 2]"
    using col by (simp add: example_scored)
  then have eq: "scores = [22.5, 7.5, 2]"
    by (rule map_injective) simp
  have "(0::nat) \<le> 2 \<and> (2::nat) < length scores"
    by (simp add: eq)
  with idx have "scores ! 2 \<le> scores ! 0"
    by blast
  then show ?thesis
    using col eq by simp
qed

text \<open>
  Claim C10. The scoring stage neither drops nor adds rows. Its result is as long as its
  input; the rows of the result are the rows of the input in some order, each with the two
  derived columns filled in and its seven original columns as they were.
\<close>

theorem scoring_keeps_rows:
  "length (calculate_momentum_score df) = length df
   \<and> mset (map original_columns (calculate_momentum_score df)) = mset (map original_columns df)
   \<and> mset (calculate_momentum_score df) =
       mset (map (\<lambda>r. r\<lparr>trend_consistency :=
                   Some (if float_mul (price_change_1d r) (price_change_7d r) > 0 then 1.5 else 1),
                 momentum_score :=
                   Some (round2 (float_mul (float_mul (volume_ratio r) \<bar>price_change_1d r\<bar>)
                           (if float_mul (price_change_1d r) (price_change_7d r) > 0
                            then 1.5 else 1)))\<rparr>) df)
   \<and> (\<forall>r \<in> set (calculate_momentum_score df).
         trend_consistency r \<noteq> None \<and> momentum_score r \<noteq> None)"
proof -
  have perm: "mset (calculate_momentum_score df) = mset (score_columns df)"
    by (rule calculate_momentum_score_mset)
  have len: "length (calculate_momentum_score df) = length df"
    using perm score_columns_length [of df] by (metis size_mset)
  have "mset (map original_columns (calculate_momentum_score df))
          = image_mset original_columns (mset (score_columns df))"
    by (simp only: mset_map perm)
  also have "\<dots> = mset (map original_columns (score_columns df))"
    by simp
  finally have cols: "mset (map original_columns (calculate_momentum_score df))
          = mset (map original_columns df)"
    by (simp only: score_columns_original)
  have ext: "\<forall>r \<in> set (calculate_momentum_score df).
         trend_consistency r \<noteq> None \<and> momentum_score r \<noteq> None"
    using score_columns_scored [of _ df] by (fastforce simp: calculate_momentum_score_set)
  have rows: "mset (calculate_momentum_score df) =
       mset (map (\<lambda>r. r\<lparr>trend_consistency :=
                   Some (if float_mul (price_change_1d r) (price_change_7d r) > 0 then 1.5 else 1),
                 momentum_score :=
                   Some (round2 (float_mul (float_mul (volume_ratio r) \<bar>price_change_1d r\<bar>)
                           (if float_mul (price_change_1d r) (price_change_7d r) > 0
                            then 1.5 else 1)))\<rparr>) df)"
    using perm by (simp only: score_columns_map)
  from len cols rows ext show ?thesis
    by blast
qed

theorem scoring_keeps_rows_witness:
  "length (calculate_momentum_score [quiet_row, busy_row, scenario_a]) = 3
   \<and> busy_row\<lparr>trend_consistency := Some 1, momentum_score := Some 7.5\<rparr>
        \<in> set (calculate_momentum_score [quiet_row, busy_row, scenario_a])
   \<and> trend_consistency (busy_row\<lparr>trend_consistency := Some 1, momentum_score := Some 7.5\<rparr>) \<noteq> None
   \<and> momentum_score (busy_row\<lparr>trend_consistency := Some 1, momentum_score := Some 7.5\<rparr>) \<noteq> None"
proof -
  have mem: "busy_row\<lparr>trend_consistency := Some 1, momentum_score := Some 7.5\<rparr>
        \<in> set (calculate_momentum_score [quiet_row, busy_row, scenario_a])"
    by (simp add: example_scored)
  show ?thesis
    using mem scoring_keeps_rows [of "[quiet_row, busy_row, scenario_a]"]
    by simp
qed

lemma row_update_cong:
  fixes r r' :: row
  assumes "original_columns r = original_columns r'"
  shows "r\<lparr>trend_consistency := x, momentum_score := y\<rparr>
           = r'\<lparr>trend_consistency := x, momentum_score := y\<rparr>"
  using assms by (cases r, cases r') (simp add: original_columns_def)

lemma score_columns_cong:
  "map original_columns df = map original_columns df' \<Longrightarrow> score_columns df = score_columns df'"
proof (induction df arbitrary: df')
  case Nil
  then show ?case by simp
next
  case (Cons r df)
  then obtain r' rest where df': "df' = r' # rest"
    by (cases df') auto
  with Cons.prems have hd: "original_columns r = original_columns r'"
    and tl: "map original_columns df = map original_columns rest"
    by simp_all
  from hd have same: "price_change_1d r = price_change_1d r'"
    "price_change_7d r = price_change_7d r'" "volume_ratio r = volume_ratio r'"
    by (simp_all add: original_columns_def)
  have "score_columns (r # df) = score_columns [r] @ score_columns df"
    by (simp add: score_columns_map)
  moreover have "score_columns (r' # rest) = score_columns [r'] @ score_columns rest"
    by (simp add: score_columns_map)
  moreover have "score_columns [r] = score_columns [r']"
    using row_update_cong [OF hd] by (simp add: score_columns_map same)
  ultimately show ?case
    using Cons.IH [OF tl] df' by simp
qed

lemma calculate_momentum_score_cong:
  assumes "map original_columns df = map original_columns df'"
  shows "calculate_momentum_score df = calculate_momentum_score df'"
proof -
  have "length df = length df'"
    using assms by (rule map_eq_imp_length_eq)
  then have "(length df = 0) = (length df' = 0)" and "df' = [] \<Longrightarrow> df = []"
    by simp_all
  then show ?thesis
    by (auto simp: calculate_momentum_score_def score_columns_cong [OF assms])
qed

lemma calculate_momentum_score_call_eq:
  assumes "a < length s"
  shows "calculate_momentum_score_call s a =
     (if s ! a = [] then (s, a)
      else (s[a := score_columns (s ! a)] @ [calculate_momentum_score (s ! a)], length s))"
  using assms
  by (simp add: calculate_momentum_score_call_def calculate_momentum_score_def
      score_columns_def alloc_def Let_def)

lemma score_columns_Nil_iff: "score_columns df = [] \<longleftrightarrow> df = []"
  by (simp add: score_columns_map)

text \<open>
  Claim C9. Score determinism: the frame that the scoring stage returns is a function of
  the rows it is given, and of their seven original columns only. Two inputs that agree on
  those columns give the same output, scores included. In particular a second call on the
  very same frame object, which the first call has extended in place, returns a frame with
  the same content as the first.
\<close>

theorem scoring_deterministic:
  "(map original_columns df = map original_columns df' \<longrightarrow>
      calculate_momentum_score df = calculate_momentum_score df')
   \<and> (a < length s \<longrightarrow>
        (let first = calculate_momentum_score_call s a;
             second = calculate_momentum_score_call (fst first) a
         in fst second ! snd second = fst first ! snd first
            \<and> fst first ! snd first = calculate_momentum_score (s ! a)))"
proof (intro conjI impI)
  assume "map original_columns df = map original_columns df'"
  then show "calculate_momentum_score df = calculate_momentum_score df'"
    by (rule calculate_momentum_score_cong)
next
  assume a: "a < length s"
  show "let first = calculate_momentum_score_call s a;
            second = calculate_momentum_score_call (fst first) a
        in fst second ! snd second = fst first ! snd first
           \<and> fst first ! snd first = calculate_momentum_score (s ! a)"
  proof (cases "s ! a = []")
    case True
    then show ?thesis
      using a by (simp add: calculate_momentum_score_call_eq calculate_momentum_score_Nil)
  next
    case False
    let ?s1 = "s[a := score_columns (s ! a)] @ [calculate_momentum_score (s ! a)]"
    have first: "calculate_momentum_score_call s a = (?s1, length s)"
      using a False by (simp add: calculate_momentum_score_call_eq)
    have a1: "a < length ?s1"
      using a by simp
    have at: "?s1 ! a = score_columns (s ! a)"
      using a by (simp add: nth_append)
    have second: "calculate_momentum_score_call ?s1 a =
        (?s1[a := score_columns (?s1 ! a)] @ [calculate_momentum_score (?s1 ! a)], length ?s1)"
      using False by (simp only: calculate_momentum_score_call_eq [OF a1] at score_columns_Nil_iff if_False)
    have again: "calculate_momentum_score (score_columns (s ! a)) = calculate_momentum_score (s ! a)"
      by (rule calculate_momentum_score_cong) (rule score_columns_original)
    show ?thesis
      unfolding Let_def first fst_conv snd_conv second
      using a by (simp add: at again nth_append)
  qed
qed

theorem scoring_deterministic_witness:
  "map original_columns [scenario_a\<lparr>momentum_score := Some 1\<rparr>, busy_row]
      = map original_columns [scenario_a, busy_row]
   \<and> calculate_momentum_score [scenario_a\<lparr>momentum_score := Some 1\<rparr>, busy_row]
      = calculate_momentum_score [scenario_a, busy_row]
   \<and> (0::nat) < length [[scenario_a, busy_row]]
   \<and> fst (calculate_momentum_score_call
             (fst (calculate_momentum_score_call [[scenario_a, busy_row]] 0)) 0)
       ! snd (calculate_momentum_score_call
             (fst (calculate_momentum_score_call [[scenario_a, busy_row]] 0)) 0)
      = calculate_momentum_score [scenario_a, busy_row]"
proof -
  have cols: "map original_columns [scenario_a\<lparr>momentum_score := Some 1\<rparr>, busy_row]
      = map original_columns [scenario_a, busy_row]"
    by (simp add: original_columns_def)
  have len: "(0::nat) < length [[scenario_a, busy_row]]"
    by simp
  show ?thesis
    using cols len
      scoring_deterministic [of "[scenario_a\<lparr>momentum_score := Some 1\<rparr>, busy_row]"
        "[scenario_a, busy_row]" 0 "[[scenario_a, busy_row]]"]
    by (simp add: Let_def)
qed

text \<open>
  Claim C5. On an empty frame the scoring stage returns an empty frame: it returns the
  argument object itself and leaves the store as it is, so no column is computed. The
  summary of an empty frame is the record of zeros with no category.
\<close>

theorem empty_input:
  "calculate_momentum_score [] = []
   \<and> (a < length s \<and> s ! a = [] \<longrightarrow> calculate_momentum_score_call s a = (s, a))
   \<and> get_screening_summary series_mean [] =
       Inr \<lparr>total_found = 0, avg_volume_ratio = 0, avg_momentum_score = 0,
            top_categories = []\<rparr>"
  by (simp add: calculate_momentum_score_Nil calculate_momentum_score_call_def
      get_screening_summary_def)

theorem empty_input_witness:
  "(0::nat) < length [[] :: dataframe] \<and> [[] :: dataframe] ! 0 = []
   \<and> calculate_momentum_score_call [[]] 0 = ([[]], 0)"
  using empty_input [of 0 "[[]]"] by simp

section \<open>Effects on the caller's frame\<close>

text \<open>
  The sentence of the specification under claim C8 says that no stage changes the frame it
  is given and that each returns a new result. The scoring stage does neither in general:
  on a frame with one row the caller's object has two more columns after the call, and on
  an empty frame the object returned is the argument itself.
\<close>

theorem scoring_mutates_input_counterexample:
  "fst (calculate_momentum_score_call [[scenario_a]] 0) ! 0 \<noteq> [[scenario_a]] ! 0
   \<and> snd (calculate_momentum_score_call [[]] 0) = 0"
proof -
  have "fst (calculate_momentum_score_call [[scenario_a]] 0) ! 0 =
      [scenario_a\<lparr>trend_consistency := Some 1.5, momentum_score := Some 22.5\<rparr>]"
    by (simp add: calculate_momentum_score_call_eq scenario_a_columns)
  moreover have "scenario_a\<lparr>trend_consistency := Some 1.5, momentum_score := Some 22.5\<rparr>
      \<noteq> scenario_a"
    by (simp add: example_rows)
  moreover have "snd (calculate_momentum_score_call [[]] 0) = 0"
    by (simp add: calculate_momentum_score_call_eq)
  ultimately show ?thesis
    by simp
qed

text \<open>
  Claim C8, as the code has it. The filter stage leaves every frame of the store as it
  was, the frame it is given included, and returns a new object holding the selection. The
  summary aggregator leaves the store as it was. The scoring stage returns an empty frame
  as the same object, untouched. On a frame with rows it writes the columns
  \<open>trend_consistency\<close> and \<open>momentum_score\<close> into the caller's frame in place: the seven
  original columns and the order of the rows of that frame stay as they were, every other
  frame of the store stays as it was, and the sorted result is a new object. Both callers
  of the scoring stage hand it a private copy (\<^verbatim>\<open>screener.py\<close> line 60,
  \<^verbatim>\<open>app.py\<close> line 73).
\<close>

theorem engine_store_effects:
  assumes "a < length s"
  shows "(\<forall>b < length s. fst (apply_filters_call s a mv lo hi) ! b = s ! b)
    \<and> snd (apply_filters_call s a mv lo hi) = length s
    \<and> fst (apply_filters_call s a mv lo hi) ! snd (apply_filters_call s a mv lo hi)
        = apply_filters (s ! a) mv lo hi
    \<and> fst (get_screening_summary_call series_mean s a) = s
    \<and> (s ! a = [] \<longrightarrow> calculate_momentum_score_call s a = (s, a))
    \<and> (s ! a \<noteq> [] \<longrightarrow>
         snd (calculate_momentum_score_call s a) = length s
       \<and> fst (calculate_momentum_score_call s a) ! snd (calculate_momentum_score_call s a)
           = calculate_momentum_score (s ! a)
       \<and> fst (calculate_momentum_score_call s a) ! a = score_columns (s ! a)
       \<and> map original_columns (fst (calculate_momentum_score_call s a) ! a)
           = map original_columns (s ! a)
       \<and> (\<forall>r \<in> set (fst (calculate_momentum_score_call s a) ! a).
             trend_consistency r \<noteq> None \<and> momentum_score r \<noteq> None)
       \<and> (\<forall>b < length s. b \<noteq> a \<longrightarrow> fst (calculate_momentum_score_call s a) ! b = s ! b))"
proof -
  have filt: "(\<forall>b < length s. fst (apply_filters_call s a mv lo hi) ! b = s ! b)
    \<and> snd (apply_filters_call s a mv lo hi) = length s
    \<and> fst (apply_filters_call s a mv lo hi) ! snd (apply_filters_call s a mv lo hi)
        = apply_filters (s ! a) mv lo hi"
    by (simp add: apply_filters_call_def alloc_def nth_append)
  have summ: "fst (get_screening_summary_call series_mean s a) = s"
    by (simp add: get_screening_summary_call_def)
  have empty: "s ! a = [] \<longrightarrow> calculate_momentum_score_call s a = (s, a)"
    using assms by (simp add: calculate_momentum_score_call_eq)
  have scored: "s ! a \<noteq> [] \<longrightarrow>
         snd (calculate_momentum_score_call s a) = length s
       \<and> fst (calculate_momentum_score_call s a) ! snd (calculate_momentum_score_call s a)
           = calculate_momentum_score (s ! a)
       \<and> fst (calculate_momentum_score_call s a) ! a = score_columns (s ! a)
       \<and> map original_columns (fst (calculate_momentum_score_call s a) ! a)
           = map original_columns (s ! a)
       \<and> (\<forall>r \<in> set (fst (calculate_momentum_score_call s a) ! a).
             trend_consistency r \<noteq> None \<and> momentum_score r \<noteq> None)
       \<and> (\<forall>b < length s. b \<noteq> a \<longrightarrow> fst (calculate_momentum_score_call s a) ! b = s ! b)"
  proof
    assume nonempty: "s ! a \<noteq> []"
    let ?s' = "s[a := score_columns (s ! a)] @ [calculate_momentum_score (s ! a)]"
    have call: "calculate_momentum_score_call s a = (?s', length s)"
      using assms nonempty by (simp add: calculate_momentum_score_call_eq)
    have at: "?s' ! a = score_columns (s ! a)"
      using assms by (simp add: nth_append)
    have new: "?s' ! length s = calculate_momentum_score (s ! a)"
      by (simp add: nth_append)
    have others: "\<forall>b < length s. b \<noteq> a \<longrightarrow> ?s' ! b = s ! b"
      by (simp add: nth_append)
    have ext: "\<forall>r \<in> set (score_columns (s ! a)).
        trend_consistency r \<noteq> None \<and> momentum_score r \<noteq> None"
      using score_columns_scored [of _ "s ! a"] by fastforce
    show "snd (calculate_momentum_score_call s a) = length s
       \<and> fst (calculate_momentum_score_call s a) ! snd (calculate_momentum_score_call s a)
           = calculate_momentum_score (s ! a)
       \<and> fst (calculate_momentum_score_call s a) ! a = score_columns (s ! a)
       \<and> map original_columns (fst (calculate_momentum_score_call s a) ! a)
           = map original_columns (s ! a)
       \<and> (\<forall>r \<in> set (fst (calculate_momentum_score_call s a) ! a).
             trend_consistency r \<noteq> None \<and> momentum_score r \<noteq> None)
       \<and> (\<forall>b < length s. b \<noteq> a \<longrightarrow> fst (calculate_momentum_score_call s a) ! b = s ! b)"
      unfolding call fst_conv snd_conv
      using at new others ext score_columns_original [of "s ! a"]
      by (simp only: simp_thms)
  qed
  from filt summ empty scored show ?thesis
    by blast
qed

theorem engine_store_effects_witness:
  "(0::nat) < length [[scenario_a], [quiet_row]]
   \<and> (1::nat) < length [[scenario_a], [quiet_row]] \<and> (1::nat) \<noteq> 0
   \<and> [[scenario_a], [quiet_row]] ! 0 \<noteq> []
   \<and> fst (apply_filters_call [[scenario_a], [quiet_row]] 0 2 (- 50) 50) ! 0 = [scenario_a]
   \<and> fst (calculate_momentum_score_call [[scenario_a], [quiet_row]] 0) ! 1 = [quiet_row]
   \<and> snd (calculate_momentum_score_call [[scenario_a], [quiet_row]] 0) = 2
   \<and> fst (calculate_momentum_score_call [[scenario_a], [quiet_row]] 0) ! 0
       = [scenario_a\<lparr>trend_consistency := Some 1.5, momentum_score := Some 22.5\<rparr>]
   \<and> trend_consistency (scenario_a\<lparr>trend_consistency := Some 1.5, momentum_score := Some 22.5\<rparr>)
       \<noteq> None"
proof -
  have len: "(0::nat) < length [[scenario_a], [quiet_row]]"
    by simp
  have sc: "score_columns [scenario_a] =
      [scenario_a\<lparr>trend_consistency := Some 1.5, momentum_score := Some 22.5\<rparr>]"
    by (rule scenario_a_columns)
  have ne: "scenario_a # [] \<noteq> []"
    by simp
  show ?thesis
    using engine_store_effects [OF len, of 2 "- 50" 50] ne
    by (simp add: sc)
qed

section \<open>Summary aggregator: properties\<close>












end
